theory Spec2Isabelle
  imports Complex_Main "HOL-Library.AList" "HOL-Library.Sublist"
begin

section \<open>The inventory ledger of 2_GRUPO_04_TF_FP2_25-2.py\<close>

text \<open>
  A shallow embedding of the classes \<^verbatim>\<open>Proveedor\<close>, \<^verbatim>\<open>Producto\<close> (with its
  subclasses \<^verbatim>\<open>ProductoNacional\<close> and \<^verbatim>\<open>ProductoImportado\<close>), \<^verbatim>\<open>Movimiento\<close>
  and \<^verbatim>\<open>SistemaInventario\<close>. Objects mutated in place become values passed and
  returned; a raised exception becomes \<open>Inl\<close> of an \<open>error\<close>, returned together with the
  state as it is at the moment of the raise.

  Modelling decisions, all of them about Python's dynamic typing:
  \<^item> quantities and stocks are Python integers (\<open>int\<close>);
  \<^item> costs and tax rates are Python numbers, integers or floats: values of a type \<open>'n\<close>
    that is left open. The ledger stores them and computes with them in
    \<^verbatim>\<open>calcular_valor_inventario\<close> only, where Python's \<^verbatim>\<open>+\<close> and \<^verbatim>\<open>*\<close> are parameters:
    nothing is assumed about how they round, and they may raise;
  \<^item> a timestamp (\<^verbatim>\<open>datetime.datetime\<close>) is a point on a linear order, here an \<open>int\<close>;
    every \<^verbatim>\<open>datetime\<close> object is truthy, also the one the model writes \<open>0\<close>;
  \<^item> \<^verbatim>\<open>datetime.datetime.now()\<close> is an input of the operation that reads it (\<open>ahora\<close>);
  \<^item> a \<^verbatim>\<open>Movimiento\<close> refers to its \<^verbatim>\<open>Producto\<close> object; the model keeps the code of
    that product, which is what \<^verbatim>\<open>m.producto.codigo\<close> reads and which never changes.
\<close>

subsection \<open>Exceptions\<close>

text \<open>Each exception class with the message it is raised with.\<close>

datatype error =
    ProductoNoEncontrado string
  | StockInsuficiente string
  | CodigoDuplicado string
  | ValueError string

subsection \<open>Rendering integers, as \<^verbatim>\<open>str(int)\<close> inside an f-string does\<close>

fun digitos :: "nat \<Rightarrow> string" where
  "digitos n =
     (if n < 10 then [''0123456789'' ! n]
      else digitos (n div 10) @ [''0123456789'' ! (n mod 10)])"

declare digitos.simps [simp del]

definition str_int :: "int \<Rightarrow> string" where
  "str_int i = (if i < 0 then CHR ''-'' # digitos (nat (- i)) else digitos (nat i))"

definition comilla :: char where
  "comilla = CHR 0x27"

subsection \<open>Proveedor\<close>

record proveedor =
  prov_nombre :: string
  prov_ruc :: string
  prov_telefono :: string

definition Proveedor :: "string \<Rightarrow> proveedor" where
  \<comment> \<open>\<^verbatim>\<open>Proveedor(nombre)\<close> with the default \<^verbatim>\<open>ruc\<close> and \<^verbatim>\<open>telefono\<close>\<close>
  "Proveedor n = \<lparr>prov_nombre = n, prov_ruc = ''00000000000'', prov_telefono = ''999999999''\<rparr>"

text \<open>\<^verbatim>\<open>proveedor_info\<close> is a \<^verbatim>\<open>Proveedor\<close> object or anything else, taken as a name.\<close>

datatype proveedor_info = Objeto proveedor | Nombre string

subsection \<open>Movimiento\<close>

type_synonym datetime = int

record movimiento =
  tipo :: string
  producto :: string
  cantidad :: int
  fecha :: datetime
  usuario :: string

definition Movimiento :: "string \<Rightarrow> string \<Rightarrow> int \<Rightarrow> datetime option \<Rightarrow> string \<Rightarrow> datetime \<Rightarrow> movimiento" where
  \<comment> \<open>\<^verbatim>\<open>Movimiento.__init__\<close>; the \<^verbatim>\<open>isinstance\<close> test cannot fail on a product of the catalog\<close>
  "Movimiento t p c f u ahora =
     \<lparr>tipo = t, producto = p, cantidad = c,
      fecha = (case f of Some d \<Rightarrow> d | None \<Rightarrow> ahora), usuario = u\<rparr>"

definition crear_movimiento :: "string \<Rightarrow> string \<Rightarrow> int \<Rightarrow> string \<Rightarrow> datetime \<Rightarrow> movimiento" where
  "crear_movimiento t p c u ahora = Movimiento t p c None u ahora"

subsection \<open>Producto and its two subclasses\<close>

datatype 'n clase = ProductoNacional string | ProductoImportado 'n

record 'n producto_obj =
  codigo :: string
  nombre :: string
  categoria :: string
  stock_minimo :: int
  proveedor :: proveedor
  costo_unitario :: 'n
  stock_actual :: int
  movimientos_producto :: "movimiento list"
  clase :: "'n clase"

definition Producto ::
  "string \<Rightarrow> string \<Rightarrow> string \<Rightarrow> int \<Rightarrow> proveedor_info \<Rightarrow> 'n \<Rightarrow> 'n clase \<Rightarrow> 'n producto_obj" where
  \<comment> \<open>\<^verbatim>\<open>Producto.__init__\<close>, called by the constructor of the subclass \<open>k\<close>\<close>
  "Producto c n cat smin pinfo costo k =
     \<lparr>codigo = c, nombre = n, categoria = cat, stock_minimo = smin,
      proveedor = (case pinfo of Objeto pr \<Rightarrow> pr | Nombre nm \<Rightarrow> Proveedor nm),
      costo_unitario = costo, stock_actual = 0, movimientos_producto = [], clase = k\<rparr>"

definition actualizar_stock :: "'n producto_obj \<Rightarrow> int \<Rightarrow> 'n producto_obj" where
  "actualizar_stock p c = p\<lparr>stock_actual := stock_actual p + c\<rparr>"

definition verificar_stock_minimo :: "'n producto_obj \<Rightarrow> bool" where
  "verificar_stock_minimo p = (stock_actual p \<le> stock_minimo p)"

definition agregar_movimiento :: "'n producto_obj \<Rightarrow> movimiento \<Rightarrow> 'n producto_obj" where
  "agregar_movimiento p m = p\<lparr>movimientos_producto := movimientos_producto p @ [m]\<rparr>"

definition obtener_movimientos :: "'n producto_obj \<Rightarrow> movimiento list" where
  "obtener_movimientos p = movimientos_producto p"

text \<open>
  Python's arithmetic on numbers, as far as the program uses it: the number that an
  \<^verbatim>\<open>int\<close> object is, \<^verbatim>\<open>x + y\<close> and \<^verbatim>\<open>x * y\<close>. An operation gives \<open>None\<close> when it raises
  (\<^verbatim>\<open>OverflowError\<close>, for an \<^verbatim>\<open>int\<close> that is too large to be converted to a float).
\<close>

record 'n aritmetica =
  num_entero :: "int \<Rightarrow> 'n"
  num_suma :: "'n \<Rightarrow> 'n \<Rightarrow> 'n option"
  num_mult :: "'n \<Rightarrow> 'n \<Rightarrow> 'n option"

definition costo_con_impuesto :: "'n aritmetica \<Rightarrow> 'n \<Rightarrow> 'n \<Rightarrow> 'n option" where
  \<comment> \<open>the method of \<^verbatim>\<open>ProductoImportado\<close>, of the unit cost and the tax of the object:
      \<^verbatim>\<open>self.costo_unitario * (1 + self.__impuesto)\<close>, the sum first\<close>
  "costo_con_impuesto ar costo imp =
     (case num_suma ar (num_entero ar 1) imp of
        None \<Rightarrow> None
      | Some u \<Rightarrow> num_mult ar costo u)"

subsection \<open>SistemaInventario\<close>

text \<open>
  \<^verbatim>\<open>__productos\<close> is a dict, which keeps insertion order: an association list, read with
  \<^const>\<open>map_of\<close> and written with \<^const>\<open>AList.update\<close> (in place for a key that is
  present, at the end for a new one). \<^verbatim>\<open>__movimientos\<close> is the global log.
\<close>

record 'n sistema =
  productos :: "(string \<times> 'n producto_obj) list"
  movimientos :: "movimiento list"

definition sistema_vacio :: "'n sistema" where
  "sistema_vacio = \<lparr>productos = [], movimientos = []\<rparr>"

text \<open>
  \<^verbatim>\<open>datos_extra\<close> is \<^verbatim>\<open>None\<close> or a dict; the code reads the keys \<^verbatim>\<open>"region_origen"\<close> and
  \<^verbatim>\<open>"impuesto"\<close> only, so a dict is the pair of what it holds under them (a string
  and a number of the type \<open>'n\<close>, \<open>None\<close> for a key that is absent). \<^verbatim>\<open>not datos_extra\<close> holds of \<^verbatim>\<open>None\<close>
  and of the empty dict; the empty dict has neither key, so the test
  \<^verbatim>\<open>not datos_extra or key not in datos_extra\<close> is: \<^verbatim>\<open>None\<close>, or a dict without the key.
\<close>

record 'n datos =
  region_origen :: "string option"
  impuesto :: "'n option"

definition registrar_producto ::
  "'n sistema \<Rightarrow> string \<Rightarrow> string \<Rightarrow> string \<Rightarrow> int \<Rightarrow> proveedor_info \<Rightarrow> 'n \<Rightarrow> string
     \<Rightarrow> 'n datos option \<Rightarrow> (error + 'n producto_obj) \<times> 'n sistema" where
  "registrar_producto s c n cat smin pinfo costo tipo_producto datos_extra =
     (if map_of (productos s) c \<noteq> None then
        (Inl (CodigoDuplicado (''Error: El codigo '' @ [comilla] @ c @ [comilla] @ '' ya existe en el sistema'')), s)
      else if tipo_producto = ''nacional'' then
        (case (case datos_extra of None \<Rightarrow> None | Some d \<Rightarrow> region_origen d) of
           None \<Rightarrow> (Inl (ValueError (''Producto nacional requiere '' @ [comilla] @ ''region_origen'' @ [comilla] @ '' en datos_extra'')), s)
         | Some r \<Rightarrow>
             (let p = Producto c n cat smin pinfo costo (ProductoNacional r)
              in (Inr p, s\<lparr>productos := AList.update c p (productos s)\<rparr>)))
      else if tipo_producto = ''importado'' then
        (case (case datos_extra of None \<Rightarrow> None | Some d \<Rightarrow> impuesto d) of
           None \<Rightarrow> (Inl (ValueError (''Producto importado requiere '' @ [comilla] @ ''impuesto'' @ [comilla] @ '' en datos_extra'')), s)
         | Some t \<Rightarrow>
             (let p = Producto c n cat smin pinfo costo (ProductoImportado t)
              in (Inr p, s\<lparr>productos := AList.update c p (productos s)\<rparr>)))
      else
        (Inl (ValueError (''Tipo de producto no v'' @ [CHR 0xC3, CHR 0xA1] @ ''lido: '' @ tipo_producto
               @ ''. Use '' @ [comilla] @ ''nacional'' @ [comilla] @ '' o '' @ [comilla] @ ''importado'' @ [comilla])), s))"

definition registrar_ingreso ::
  "'n sistema \<Rightarrow> string \<Rightarrow> int \<Rightarrow> string \<Rightarrow> string \<Rightarrow> datetime
     \<Rightarrow> (error + movimiento) \<times> 'n sistema" where
  "registrar_ingreso s c q tipo_ingreso u ahora =
     (case map_of (productos s) c of
        None \<Rightarrow>
          (Inl (ProductoNoEncontrado (''Error: Producto con codigo '' @ [comilla] @ c @ [comilla] @ '' no encontrado'')), s)
      | Some p \<Rightarrow>
          (let m = crear_movimiento (''ingreso_'' @ tipo_ingreso) (codigo p) q u ahora;
               registro = movimientos s @ [m];
               p1 = actualizar_stock p q;
               p2 = agregar_movimiento p1 m
           in (Inr m, \<lparr>productos = AList.update c p2 (productos s), movimientos = registro\<rparr>)))"

definition registrar_salida ::
  "'n sistema \<Rightarrow> string \<Rightarrow> int \<Rightarrow> string \<Rightarrow> string \<Rightarrow> datetime
     \<Rightarrow> (error + movimiento) \<times> 'n sistema" where
  "registrar_salida s c q tipo_salida u ahora =
     (case map_of (productos s) c of
        None \<Rightarrow>
          (Inl (ProductoNoEncontrado (''Error: Producto con codigo '' @ [comilla] @ c @ [comilla] @ '' no encontrado'')), s)
      | Some p \<Rightarrow>
          if stock_actual p < q then
            (Inl (StockInsuficiente
               (''Error: Stock insuficiente para '' @ [comilla] @ nombre p @ [comilla] @ ''. ''
                @ ''Stock actual: '' @ str_int (stock_actual p) @ '', Solicitado: '' @ str_int q)), s)
          else
            (let m = crear_movimiento (''salida_'' @ tipo_salida) (codigo p) (- q) u ahora;
                 registro = movimientos s @ [m];
                 p1 = actualizar_stock p (- q);
                 p2 = agregar_movimiento p1 m
             in (Inr m, \<lparr>productos = AList.update c p2 (productos s), movimientos = registro\<rparr>)))"

subsection \<open>buscar_producto\<close>

text \<open>
  \<^verbatim>\<open>str.lower()\<close>, which folds every cased letter of Unicode, is a parameter (\<open>lower\<close>) of
  the search: nothing is assumed about it. \<^verbatim>\<open>a in b\<close> on strings is \<^const>\<open>sublist\<close>.
\<close>

definition coincide :: "(string \<Rightarrow> string) \<Rightarrow> string \<Rightarrow> string \<Rightarrow> 'n producto_obj \<Rightarrow> bool" where
  \<comment> \<open>the condition of the loop body; \<^verbatim>\<open>and\<close> does not evaluate its right side when the
      criterion differs\<close>
  "coincide lower criterio valor p =
     ((criterio = ''codigo'' \<and> sublist (lower valor) (lower (codigo p))) \<or>
      (criterio = ''nombre'' \<and> sublist (lower valor) (lower (nombre p))) \<or>
      (criterio = ''categoria'' \<and> sublist (lower valor) (lower (categoria p))))"

fun buscar_bucle ::
  "(string \<Rightarrow> string) \<Rightarrow> string \<Rightarrow> string \<Rightarrow> 'n producto_obj list \<Rightarrow> 'n producto_obj list
     \<Rightarrow> 'n producto_obj list" where
  "buscar_bucle lower criterio valor [] resultados = resultados"
| "buscar_bucle lower criterio valor (p # ps) resultados =
     buscar_bucle lower criterio valor ps
       (if coincide lower criterio valor p then resultados @ [p] else resultados)"

definition buscar_producto ::
  "(string \<Rightarrow> string) \<Rightarrow> 'n sistema \<Rightarrow> string \<Rightarrow> string \<Rightarrow> 'n producto_obj list" where
  "buscar_producto lower s criterio valor =
     buscar_bucle lower criterio valor (map snd (productos s)) []"

text \<open>What \<^verbatim>\<open>str.lower()\<close> does to a string of ASCII characters, for the examples.\<close>

definition lower_ascii :: "string \<Rightarrow> string" where
  "lower_ascii v =
     map (\<lambda>c. case map_of (zip ''ABCDEFGHIJKLMNOPQRSTUVWXYZ'' ''abcdefghijklmnopqrstuvwxyz'') c of
                Some l \<Rightarrow> l
              | None \<Rightarrow> c) v"

subsection \<open>calcular_valor_inventario\<close>

text \<open>
  The method prints one row per product and the total, and returns nothing; the model
  returns what it prints, before the numbers are formatted: the rows printed, and the total,
  or \<open>None\<close> in its place when an operation raises, which ends the method after the rows
  printed so far.
\<close>

record 'n fila =
  fila_nombre :: string
  fila_tipo :: string
  fila_stock :: int
  fila_costo_unit :: 'n
  fila_valor :: 'n

definition costo_unit :: "'n aritmetica \<Rightarrow> 'n producto_obj \<Rightarrow> 'n option" where
  \<comment> \<open>the variable \<^verbatim>\<open>costo_unit\<close> of the loop body: \<^verbatim>\<open>hasattr(producto, "costo_con_impuesto")\<close>
      holds of the objects of \<^verbatim>\<open>ProductoImportado\<close> and of no other\<close>
  "costo_unit ar p =
     (case clase p of
        ProductoImportado imp \<Rightarrow> costo_con_impuesto ar (costo_unitario p) imp
      | ProductoNacional _ \<Rightarrow> Some (costo_unitario p))"

fun valor_bucle ::
  "'n aritmetica \<Rightarrow> 'n producto_obj list \<Rightarrow> 'n \<Rightarrow> 'n fila list \<Rightarrow> 'n fila list \<times> 'n option" where
  "valor_bucle ar [] valor_total filas = (filas, Some valor_total)"
| "valor_bucle ar (p # ps) valor_total filas =
     (case costo_unit ar p of
        None \<Rightarrow> (filas, None)
      | Some cu \<Rightarrow>
          (case num_mult ar (num_entero ar (stock_actual p)) cu of
             None \<Rightarrow> (filas, None)
           | Some valor_producto \<Rightarrow>
               (case num_suma ar valor_total valor_producto of
                  None \<Rightarrow> (filas, None)
                | Some valor_total' \<Rightarrow>
                    valor_bucle ar ps valor_total'
                      (filas @
                       [\<lparr>fila_nombre = nombre p,
                          fila_tipo = (case clase p of
                                         ProductoNacional _ \<Rightarrow> ''NACIONAL''
                                       | ProductoImportado _ \<Rightarrow> ''IMPORTADO''),
                          fila_stock = stock_actual p, fila_costo_unit = cu,
                          fila_valor = valor_producto\<rparr>]))))"

definition calcular_valor_inventario :: "'n aritmetica \<Rightarrow> 'n sistema \<Rightarrow> 'n fila list \<times> 'n option" where
  \<comment> \<open>\<^verbatim>\<open>valor_total = 0\<close>, then the loop over \<^verbatim>\<open>self.__productos.values()\<close>\<close>
  "calcular_valor_inventario ar s = valor_bucle ar (map snd (productos s)) (num_entero ar 0) []"

subsection \<open>obtener_historial_movimientos\<close>

text \<open>
  Each filter is applied when its argument is truthy. \<^verbatim>\<open>None\<close> is falsy, and so is the
  empty string; a \<^verbatim>\<open>datetime\<close> never is.
\<close>

definition obtener_historial_movimientos ::
  "'n sistema \<Rightarrow> string option \<Rightarrow> datetime option \<Rightarrow> datetime option \<Rightarrow> movimiento list" where
  "obtener_historial_movimientos s codigo_producto fecha_inicio fecha_fin =
     (let f0 = movimientos s;
          f1 = (case codigo_producto of
                  None \<Rightarrow> f0
                | Some c \<Rightarrow> if c = [] then f0 else filter (\<lambda>m. producto m = c) f0);
          f2 = (case fecha_inicio of None \<Rightarrow> f1 | Some d \<Rightarrow> filter (\<lambda>m. fecha m \<ge> d) f1);
          f3 = (case fecha_fin of None \<Rightarrow> f2 | Some d \<Rightarrow> filter (\<lambda>m. fecha m \<le> d) f2)
      in f3)"

subsection \<open>Sequences of calls\<close>

text \<open>
  A call of one of the three operations that change the ledger, with its arguments (and
  the clock reading, for the two that create a movement). The caller catches the
  exception of a call that fails and goes on, so the state after a call is the second
  component of its result in both cases.
\<close>

datatype 'n operacion =
    RegistrarProducto string string string int proveedor_info 'n string "'n datos option"
  | RegistrarIngreso string int string string datetime
  | RegistrarSalida string int string string datetime

fun aplicar :: "'n sistema \<Rightarrow> 'n operacion \<Rightarrow> 'n sistema" where
  "aplicar s (RegistrarProducto c n cat smin pinfo costo t d) =
     snd (registrar_producto s c n cat smin pinfo costo t d)"
| "aplicar s (RegistrarIngreso c q t u ahora) = snd (registrar_ingreso s c q t u ahora)"
| "aplicar s (RegistrarSalida c q t u ahora) = snd (registrar_salida s c q t u ahora)"

definition ejecutar :: "'n sistema \<Rightarrow> 'n operacion list \<Rightarrow> 'n sistema" where
  "ejecutar s ops = foldl aplicar s ops"


definition stocks :: "'n sistema \<Rightarrow> (string \<times> int) list" where
  "stocks s = map (\<lambda>(k, p). (k, stock_actual p)) (productos s)"

definition bien_formado :: "'n sistema \<Rightarrow> bool" where
  \<comment> \<open>every product is stored under its own code, as \<^verbatim>\<open>registrar_producto\<close> stores it\<close>
  "bien_formado s = list_all (\<lambda>(k, p). codigo p = k) (productos s)"


subsection \<open>The properties as the specification words them\<close>

definition valuacion_spec :: "'n aritmetica \<Rightarrow> 'n producto_obj \<Rightarrow> 'n option" where
  \<comment> \<open>\<^verbatim>\<open>unit_cost * (1 + tax_rate) * current_stock\<close> for an imported product and
      \<^verbatim>\<open>unit_cost * current_stock\<close> for a domestic one, as Python evaluates them; \<open>None\<close>
      when the expression raises\<close>
  "valuacion_spec ar p =
     (case clase p of
        ProductoImportado tax_rate \<Rightarrow>
          Option.bind (num_suma ar (num_entero ar 1) tax_rate) (\<lambda>u.
          Option.bind (num_mult ar (costo_unitario p) u) (\<lambda>c.
          num_mult ar c (num_entero ar (stock_actual p))))
      | ProductoNacional _ \<Rightarrow> num_mult ar (costo_unitario p) (num_entero ar (stock_actual p)))"

fun suma_spec :: "'n aritmetica \<Rightarrow> 'n \<Rightarrow> 'n list \<Rightarrow> 'n option" where
  \<comment> \<open>the sum of a list of numbers from a start value, left to right, as \<^verbatim>\<open>sum\<close> adds;
      \<open>None\<close> when an addition raises\<close>
  "suma_spec ar a [] = Some a"
| "suma_spec ar a (v # vs) = Option.bind (num_suma ar a v) (\<lambda>a'. suma_spec ar a' vs)"

definition historial_spec ::
  "movimiento list \<Rightarrow> string option \<Rightarrow> datetime option \<Rightarrow> datetime option \<Rightarrow> movimiento list" where
  \<comment> \<open>the movements that pass every filter that is supplied, in the order of the global log; the
      time range is inclusive\<close>
  "historial_spec registro code from_time to_time =
     filter (\<lambda>m. (case code of None \<Rightarrow> True | Some c \<Rightarrow> producto m = c) \<and>
                 (case from_time of None \<Rightarrow> True | Some d \<Rightarrow> d \<le> fecha m) \<and>
                 (case to_time of None \<Rightarrow> True | Some d \<Rightarrow> fecha m \<le> d)) registro"

definition datos_validos :: "string \<Rightarrow> 'n datos option \<Rightarrow> bool" where
  \<comment> \<open>a recognised kind together with the datum that kind requires\<close>
  "datos_validos t d =
     (case d of
        None \<Rightarrow> False
      | Some x \<Rightarrow> (t = ''nacional'' \<and> region_origen x \<noteq> None) \<or>
                  (t = ''importado'' \<and> impuesto x \<noteq> None))"

subsection \<open>Examples\<close>

text \<open>
  The first two products of the seed data of \<^verbatim>\<open>main()\<close> and the inbound movement of each,
  with the clock at 1 and 2. In the examples a number is a real.
\<close>

definition datos_main :: "real operacion list" where
  "datos_main =
     [RegistrarProducto ''NA001'' ''Varilla de Acero Nacional'' ''Materiales'' 50
        (Objeto \<lparr>prov_nombre = ''Aceros Peru'', prov_ruc = ''20123456787'', prov_telefono = ''987654323''\<rparr>)
        15 ''nacional'' (Some \<lparr>region_origen = Some ''Lima'', impuesto = None\<rparr>),
      RegistrarProducto ''IM001'' ''Taladro Bosch'' ''Herramientas'' 3
        (Objeto \<lparr>prov_nombre = ''Bosch Import'', prov_ruc = ''20123456786'', prov_telefono = ''987654324''\<rparr>)
        120 ''importado'' (Some \<lparr>region_origen = None, impuesto = Some (18 / 100)\<rparr>),
      RegistrarIngreso ''NA001'' 30 ''compra'' ''Sistema'' 1,
      RegistrarIngreso ''IM001'' 2 ''compra'' ''Sistema'' 2]"

definition sistema_main :: "real sistema" where
  "sistema_main = ejecutar sistema_vacio datos_main"

text \<open>The product \<^verbatim>\<open>NA001\<close> as it is in that ledger.\<close>

definition varilla :: "real producto_obj" where
  "varilla =
     \<lparr>codigo = ''NA001'', nombre = ''Varilla de Acero Nacional'',
        categoria = ''Materiales'', stock_minimo = 50,
        proveedor = \<lparr>prov_nombre = ''Aceros Peru'', prov_ruc = ''20123456787'',
                      prov_telefono = ''987654323''\<rparr>,
        costo_unitario = 15, stock_actual = 30,
        movimientos_producto =
          [\<lparr>tipo = ''ingreso_compra'', producto = ''NA001'', cantidad = 30,
             fecha = 1, usuario = ''Sistema''\<rparr>],
        clase = ProductoNacional ''Lima''\<rparr>"

text \<open>
  An arithmetic for the examples, which rounds: numbers with two decimals, every
  product rounded down to the hundredth, and no operation that raises.
\<close>

definition sistema_broca :: "real sistema" where
  \<comment> \<open>a ledger with one imported product, of unit cost 0.55 and tax 0.15, and 3 in stock\<close>
  "sistema_broca =
     ejecutar sistema_vacio
       [RegistrarProducto ''IM009'' ''Broca 5mm'' ''Herramientas'' 1 (Nombre ''Bosch Import'')
          (55 / 100) ''importado'' (Some \<lparr>region_origen = None, impuesto = Some (15 / 100)\<rparr>),
        RegistrarIngreso ''IM009'' 3 ''compra'' ''Sistema'' 1]"

definition centesimos :: "real aritmetica" where
  "centesimos =
     \<lparr>num_entero = of_int,
      num_suma = (\<lambda>x y. Some (x + y)),
      num_mult = (\<lambda>x y. Some (of_int \<lfloor>x * y * 100\<rfloor> / 100))\<rparr>"

section \<open>Properties\<close>

subsection \<open>Auxiliary facts\<close>

lemma digitos_nonempty: "digitos n \<noteq> []"
  by (subst digitos.simps) simp

lemma str_int_ejemplos:
  "str_int 30 = ''30'' \<and> str_int (- 5) = ''-5'' \<and> str_int 0 = ''0'' \<and> str_int 1204 = ''1204''"
  by (simp add: str_int_def digitos.simps)

lemmas operaciones_defs =
  registrar_producto_def registrar_ingreso_def registrar_salida_def Producto_def Proveedor_def
  crear_movimiento_def Movimiento_def actualizar_stock_def agregar_movimiento_def Let_def

lemma sistema_main_eval:
  "sistema_main =
     \<lparr>productos =
        [(''NA001'',
          \<lparr>codigo = ''NA001'', nombre = ''Varilla de Acero Nacional'',
             categoria = ''Materiales'', stock_minimo = 50,
             proveedor = \<lparr>prov_nombre = ''Aceros Peru'', prov_ruc = ''20123456787'',
                           prov_telefono = ''987654323''\<rparr>,
             costo_unitario = 15, stock_actual = 30,
             movimientos_producto =
               [\<lparr>tipo = ''ingreso_compra'', producto = ''NA001'', cantidad = 30,
                  fecha = 1, usuario = ''Sistema''\<rparr>],
             clase = ProductoNacional ''Lima''\<rparr>),
         (''IM001'',
          \<lparr>codigo = ''IM001'', nombre = ''Taladro Bosch'',
             categoria = ''Herramientas'', stock_minimo = 3,
             proveedor = \<lparr>prov_nombre = ''Bosch Import'', prov_ruc = ''20123456786'',
                           prov_telefono = ''987654324''\<rparr>,
             costo_unitario = 120, stock_actual = 2,
             movimientos_producto =
               [\<lparr>tipo = ''ingreso_compra'', producto = ''IM001'', cantidad = 2,
                  fecha = 2, usuario = ''Sistema''\<rparr>],
             clase = ProductoImportado (18 / 100)\<rparr>)],
      movimientos =
        [\<lparr>tipo = ''ingreso_compra'', producto = ''NA001'', cantidad = 30,
           fecha = 1, usuario = ''Sistema''\<rparr>,
         \<lparr>tipo = ''ingreso_compra'', producto = ''IM001'', cantidad = 2,
           fecha = 2, usuario = ''Sistema''\<rparr>]\<rparr>"
  by (simp add: sistema_main_def datos_main_def ejecutar_def sistema_vacio_def operaciones_defs)

text \<open>What \<^const>\<open>AList.update\<close> leaves in the list: the old entries and the new one.\<close>

lemma set_update_cases:
  "x \<in> set (AList.update k v al) \<Longrightarrow> x = (k, v) \<or> x \<in> set al"
  by (induction al) (auto split: if_splits)

lemma list_all_update:
  assumes "list_all P al" and "P (k, v)"
  shows "list_all P (AList.update k v al)"
  using assms set_update_cases [of _ k v al] by (auto simp add: list_all_iff)

subsection \<open>Every product is stored under its own code\<close>

lemma bien_formado_lookup:
  "bien_formado s \<Longrightarrow> map_of (productos s) c = Some p \<Longrightarrow> codigo p = c"
  by (auto simp add: bien_formado_def list_all_iff dest: map_of_SomeD)

lemma bien_formado_registrar_producto:
  "bien_formado s \<Longrightarrow> bien_formado (snd (registrar_producto s c n cat smin pinfo costo t d))"
  by (auto simp add: registrar_producto_def bien_formado_def Producto_def Let_def
        intro!: list_all_update split: option.splits)

lemma bien_formado_registrar_ingreso:
  assumes "bien_formado s"
  shows "bien_formado (snd (registrar_ingreso s c q t u ahora))"
proof (cases "map_of (productos s) c")
  case None
  with assms show ?thesis by (simp add: registrar_ingreso_def)
next
  case (Some p)
  with assms have "codigo p = c" by (rule bien_formado_lookup)
  with assms Some show ?thesis
    by (simp add: registrar_ingreso_def bien_formado_def Let_def list_all_update
          actualizar_stock_def agregar_movimiento_def)
qed

lemma bien_formado_registrar_salida:
  assumes "bien_formado s"
  shows "bien_formado (snd (registrar_salida s c q t u ahora))"
proof (cases "map_of (productos s) c")
  case None
  with assms show ?thesis by (simp add: registrar_salida_def)
next
  case (Some p)
  with assms have "codigo p = c" by (rule bien_formado_lookup)
  with assms Some show ?thesis
    by (simp add: registrar_salida_def bien_formado_def Let_def list_all_update
          actualizar_stock_def agregar_movimiento_def)
qed

lemma bien_formado_aplicar: "bien_formado s \<Longrightarrow> bien_formado (aplicar s op)"
  by (cases op)
     (simp_all add: bien_formado_registrar_producto bien_formado_registrar_ingreso
        bien_formado_registrar_salida)

lemma bien_formado_ejecutar: "bien_formado s \<Longrightarrow> bien_formado (ejecutar s ops)"
  unfolding ejecutar_def by (induction ops arbitrary: s) (simp_all add: bien_formado_aplicar)

lemma bien_formado_vacio: "bien_formado sistema_vacio"
  by (simp add: bien_formado_def sistema_vacio_def)

subsection \<open>Stock never goes negative\<close>










subsection \<open>registrar_salida with too little stock\<close>

lemma sublist_medio: "sublist xs (ps @ xs @ ss)"
  by (auto simp add: sublist_def)

text \<open>
  C2: for a registered product and a quantity above its stock, \<^verbatim>\<open>registrar_salida\<close>
  raises \<^verbatim>\<open>StockInsuficiente\<close>; the message contains the stock and the requested
  quantity; the ledger is left as it was (nothing is appended to the global log or to the
  product's movements, and no stock changes), the test being made before any mutation.
\<close>

theorem registrar_salida_stock_insuficiente:
  assumes "map_of (productos s) c = Some p" and "stock_actual p < q"
  shows "\<exists>msg. registrar_salida s c q t u ahora = (Inl (StockInsuficiente msg), s) \<and>
           msg = ''Error: Stock insuficiente para '' @ [comilla] @ nombre p @ [comilla]
                 @ ''. Stock actual: '' @ str_int (stock_actual p)
                 @ '', Solicitado: '' @ str_int q \<and>
           sublist (str_int (stock_actual p)) msg \<and> sublist (str_int q) msg"
proof -
  let ?pre = "''Error: Stock insuficiente para '' @ [comilla] @ nombre p @ [comilla] @ ''. Stock actual: ''"
  let ?msg = "?pre @ str_int (stock_actual p) @ '', Solicitado: '' @ str_int q"
  have r: "registrar_salida s c q t u ahora = (Inl (StockInsuficiente ?msg), s)"
    using assms by (simp add: registrar_salida_def)
  have a: "sublist (str_int (stock_actual p)) ?msg"
    by (rule sublist_medio)
  have "sublist (str_int q) ((?pre @ str_int (stock_actual p) @ '', Solicitado: '') @ str_int q @ [])"
    by (rule sublist_medio)
  then have b: "sublist (str_int q) ?msg" by simp
  from r a b show ?thesis by simp
qed

theorem registrar_salida_stock_insuficiente_witness:
  "map_of (productos sistema_main) ''NA001'' = Some varilla \<and> stock_actual varilla < 40 \<and>
   registrar_salida sistema_main ''NA001'' 40 ''venta'' ''Sistema'' 5 =
     (Inl (StockInsuficiente
        (''Error: Stock insuficiente para '' @ [comilla] @ ''Varilla de Acero Nacional'' @ [comilla]
          @ ''. Stock actual: 30, Solicitado: 40'')), sistema_main)"
proof -
  have h1: "map_of (productos sistema_main) ''NA001'' = Some varilla"
    by (simp add: sistema_main_eval varilla_def)
  have h2: "stock_actual varilla < 40" by (simp add: varilla_def)
  from registrar_salida_stock_insuficiente [OF h1 h2, of "''venta''" "''Sistema''" 5] h1 h2
  show ?thesis by (simp add: varilla_def str_int_def digitos.simps)
qed

subsection \<open>registrar_ingreso with a quantity that is not positive\<close>




subsection \<open>registrar_ingreso with a positive quantity\<close>

text \<open>
  C4: in a ledger reached from the empty one, for a registered product of code \<open>c\<close> and
  a quantity \<open>q > 0\<close>, \<^verbatim>\<open>registrar_ingreso\<close> succeeds, the product's stock grows by
  exactly \<open>q\<close>, the history of \<open>c\<close> grows by exactly one movement, of quantity \<open>q\<close>, and
  every other product is as it was.
\<close>

theorem registrar_ingreso_correcto:
  assumes "s = ejecutar sistema_vacio ops" and "map_of (productos s) c = Some p" and "0 < q"
  shows "\<exists>m s' p'. registrar_ingreso s c q t u ahora = (Inr m, s') \<and> cantidad m = q \<and>
           map_of (productos s') c = Some p' \<and>
           stock_actual p' = stock_actual p + q \<and>
           obtener_historial_movimientos s' (Some c) None None =
             obtener_historial_movimientos s (Some c) None None @ [m] \<and>
           (\<forall>c'. c' \<noteq> c \<longrightarrow> map_of (productos s') c' = map_of (productos s) c')"
proof -
  have "bien_formado s"
    using assms(1) by (simp add: bien_formado_ejecutar bien_formado_vacio)
  then have cod: "codigo p = c"
    using assms(2) by (rule bien_formado_lookup)
  define m where "m = crear_movimiento (''ingreso_'' @ t) (codigo p) q u ahora"
  define p' where "p' = agregar_movimiento (actualizar_stock p q) m"
  define s' where
    "s' = \<lparr>productos = AList.update c p' (productos s), movimientos = movimientos s @ [m]\<rparr>"
  have r: "registrar_ingreso s c q t u ahora = (Inr m, s')"
    using assms(2) by (simp add: registrar_ingreso_def Let_def m_def p'_def s'_def)
  have q: "cantidad m = q" and pm: "producto m = c"
    using cod by (simp_all add: m_def crear_movimiento_def Movimiento_def)
  have l: "map_of (productos s') = (map_of (productos s))(c \<mapsto> p')"
    by (simp add: s'_def update_conv')
  have st: "stock_actual p' = stock_actual p + q"
    by (simp add: p'_def agregar_movimiento_def actualizar_stock_def)
  have h: "obtener_historial_movimientos s' (Some c) None None =
           obtener_historial_movimientos s (Some c) None None @ [m]"
    using pm by (simp add: s'_def obtener_historial_movimientos_def Let_def)
  from r q l st h show ?thesis by simp
qed

theorem registrar_ingreso_correcto_witness:
  "0 < (25 :: int) \<and>
   stocks sistema_main = [(''NA001'', 30), (''IM001'', 2)] \<and>
   stocks (snd (registrar_ingreso sistema_main ''NA001'' 25 ''compra'' ''Sistema'' 5)) =
     [(''NA001'', 55), (''IM001'', 2)] \<and>
   (\<exists>m. fst (registrar_ingreso sistema_main ''NA001'' 25 ''compra'' ''Sistema'' 5) = Inr m \<and>
        cantidad m = 25 \<and>
        obtener_historial_movimientos
          (snd (registrar_ingreso sistema_main ''NA001'' 25 ''compra'' ''Sistema'' 5))
          (Some ''NA001'') None None =
        obtener_historial_movimientos sistema_main (Some ''NA001'') None None @ [m])"
proof -
  have h1: "sistema_main = ejecutar sistema_vacio datos_main"
    by (rule sistema_main_def)
  have h2: "map_of (productos sistema_main) ''NA001'' = Some varilla"
    by (simp add: sistema_main_eval varilla_def)
  have h3: "0 < (25 :: int)" by simp
  have a: "stocks sistema_main = [(''NA001'', 30), (''IM001'', 2)]"
    by (simp add: sistema_main_eval stocks_def)
  have b: "stocks (snd (registrar_ingreso sistema_main ''NA001'' 25 ''compra'' ''Sistema'' 5)) =
     [(''NA001'', 55), (''IM001'', 2)]"
    by (simp add: sistema_main_eval stocks_def operaciones_defs)
  from registrar_ingreso_correcto [OF h1 h2 h3, of "''compra''" "''Sistema''" 5] a b
  show ?thesis by auto
qed

subsection \<open>registrar_salida within the stock\<close>

text \<open>
  C5: for a registered product of code \<open>c\<close> and a quantity \<open>q\<close> with
  \<open>0 < q \<le> stock\<close>, \<^verbatim>\<open>registrar_salida\<close> succeeds, the product's stock falls by
  exactly \<open>q\<close>, and exactly one movement is appended to the global log, of quantity
  \<open>-q\<close>: the negation is made by \<^verbatim>\<open>registrar_salida\<close>, which passes \<open>-q\<close> to the
  constructor of the movement.
\<close>

theorem registrar_salida_correcta:
  assumes "map_of (productos s) c = Some p" and "0 < q" and "q \<le> stock_actual p"
  shows "\<exists>m s' p'. registrar_salida s c q t u ahora = (Inr m, s') \<and> cantidad m = - q \<and>
           m = Movimiento (''salida_'' @ t) (codigo p) (- q) None u ahora \<and>
           movimientos s' = movimientos s @ [m] \<and>
           map_of (productos s') c = Some p' \<and>
           stock_actual p' = stock_actual p - q"
  using assms(1,3)
  by (simp add: registrar_salida_def Let_def update_conv' crear_movimiento_def Movimiento_def
        actualizar_stock_def agregar_movimiento_def)

theorem registrar_salida_correcta_witness:
  "0 < (10 :: int) \<and>
   stocks sistema_main = [(''NA001'', 30), (''IM001'', 2)] \<and>
   (\<exists>m s'. registrar_salida sistema_main ''NA001'' 10 ''venta'' ''Sistema'' 5 = (Inr m, s') \<and>
        cantidad m = - 10 \<and> movimientos s' = movimientos sistema_main @ [m] \<and>
        stocks s' = [(''NA001'', 20), (''IM001'', 2)])"
proof -
  have h1: "map_of (productos sistema_main) ''NA001'' = Some varilla"
    by (simp add: sistema_main_eval varilla_def)
  have h2: "0 < (10 :: int)" by simp
  have h3: "10 \<le> stock_actual varilla" by (simp add: varilla_def)
  have a: "stocks sistema_main = [(''NA001'', 30), (''IM001'', 2)]"
    by (simp add: sistema_main_eval stocks_def)
  have b: "stocks (snd (registrar_salida sistema_main ''NA001'' 10 ''venta'' ''Sistema'' 5)) =
     [(''NA001'', 20), (''IM001'', 2)]"
    by (simp add: sistema_main_eval stocks_def operaciones_defs)
  from registrar_salida_correcta [OF h1 h2 h3, of "''venta''" "''Sistema''" 5] a b
  show ?thesis by auto
qed

subsection \<open>registrar_producto\<close>

text \<open>
  C6: registering a code that is not in the catalog, with valid data for the kind of
  product, succeeds, and the product is in the catalog afterwards with a stock of 0;
  registering a code that is in the catalog raises \<^verbatim>\<open>CodigoDuplicado\<close> and leaves the
  ledger, and so the catalog, as it was.
\<close>

theorem registrar_producto_codigo:
  "(map_of (productos s) c = None \<and> datos_validos tp d \<longrightarrow>
      (\<exists>p s'. registrar_producto s c n cat smin pinfo costo tp d = (Inr p, s') \<and>
               map_of (productos s') c = Some p \<and> codigo p = c \<and> stock_actual p = 0)) \<and>
   (map_of (productos s) c \<noteq> None \<longrightarrow>
      (\<exists>msg. registrar_producto s c n cat smin pinfo costo tp d = (Inl (CodigoDuplicado msg), s)))"
  by (auto simp add: registrar_producto_def datos_validos_def Let_def update_conv' Producto_def
        split: option.splits)

theorem registrar_producto_codigo_witness:
  "map_of (productos sistema_main) ''NA002'' = None \<and>
   datos_validos ''nacional'' (Some \<lparr>region_origen = Some ''Arequipa'', impuesto = None :: real option\<rparr>) \<and>
   (\<exists>p s'. registrar_producto sistema_main ''NA002'' ''Tornillo Acero 5mm'' ''Tornilleria'' 100
              (Nombre ''Aceros SAC'') (1 / 2) ''nacional''
              (Some \<lparr>region_origen = Some ''Arequipa'', impuesto = None :: real option\<rparr>) = (Inr p, s') \<and>
            map_of (productos s') ''NA002'' = Some p \<and> codigo p = ''NA002'' \<and> stock_actual p = 0) \<and>
   map_of (productos sistema_main) ''NA001'' = Some varilla \<and>
   (\<exists>msg. registrar_producto sistema_main ''NA001'' ''Tornillo Acero 5mm'' ''Tornilleria'' 100
              (Nombre ''Aceros SAC'') (1 / 2) ''nacional''
              (Some \<lparr>region_origen = Some ''Arequipa'', impuesto = None :: real option\<rparr>) =
            (Inl (CodigoDuplicado msg), sistema_main))"
proof -
  have h1: "map_of (productos sistema_main) ''NA002'' = None"
    by (simp add: sistema_main_eval)
  have h2: "datos_validos ''nacional'' (Some \<lparr>region_origen = Some ''Arequipa'', impuesto = None :: real option\<rparr>)"
    by (simp add: datos_validos_def)
  have h3: "map_of (productos sistema_main) ''NA001'' = Some varilla"
    by (simp add: sistema_main_eval varilla_def)
  from registrar_producto_codigo [of sistema_main "''NA002''" "''nacional''"
        "Some \<lparr>region_origen = Some ''Arequipa'', impuesto = None :: real option\<rparr>"
        "''Tornillo Acero 5mm''" "''Tornilleria''" 100 "Nombre ''Aceros SAC''" "1 / 2"]
       registrar_producto_codigo [of sistema_main "''NA001''" "''nacional''"
        "Some \<lparr>region_origen = Some ''Arequipa'', impuesto = None :: real option\<rparr>"
        "''Tornillo Acero 5mm''" "''Tornilleria''" 100 "Nombre ''Aceros SAC''" "1 / 2"]
       h1 h2 h3
  show ?thesis by simp
qed

subsection \<open>verificar_stock_minimo\<close>

text \<open>
  C7: \<^verbatim>\<open>verificar_stock_minimo\<close> is true exactly when the stock is at most the minimum;
  in particular it is true of a product whose stock equals its minimum.
\<close>

theorem verificar_stock_minimo_limite:
  "verificar_stock_minimo p = (stock_actual p \<le> stock_minimo p) \<and>
   verificar_stock_minimo (p\<lparr>stock_actual := stock_minimo p\<rparr>)"
  by (simp add: verificar_stock_minimo_def)

theorem verificar_stock_minimo_limite_witness:
  "verificar_stock_minimo varilla \<and>
   verificar_stock_minimo (varilla\<lparr>stock_actual := 50\<rparr>) \<and>
   \<not> verificar_stock_minimo (varilla\<lparr>stock_actual := 55\<rparr>)"
  using verificar_stock_minimo_limite [of varilla]
    verificar_stock_minimo_limite [of "varilla\<lparr>stock_actual := 55\<rparr>"]
  by (simp add: varilla_def)

subsection \<open>calcular_valor_inventario\<close>

text \<open>
  With the product of an \<^verbatim>\<open>int\<close> and a number the same in both orders, as Python's is, the
  value of a row, which the loop computes as stock times unit cost, is the expression of
  the specification, which has the stock last.
\<close>

lemma valuacion_spec_costo_unit:
  assumes "\<forall>i x. num_mult ar (num_entero ar i) x = num_mult ar x (num_entero ar i)"
  shows "valuacion_spec ar p =
           Option.bind (costo_unit ar p) (\<lambda>cu. num_mult ar (num_entero ar (stock_actual p)) cu)"
proof (cases "clase p")
  case (ProductoNacional r)
  with assms show ?thesis by (simp add: valuacion_spec_def costo_unit_def)
next
  case (ProductoImportado t)
  show ?thesis
  proof (cases "num_suma ar (num_entero ar 1) t")
    case None
    with ProductoImportado show ?thesis
      by (simp add: valuacion_spec_def costo_unit_def costo_con_impuesto_def)
  next
    case (Some u)
    with ProductoImportado assms show ?thesis
      by (cases "num_mult ar (costo_unitario p) u")
         (simp_all add: valuacion_spec_def costo_unit_def costo_con_impuesto_def)
  qed
qed

lemma bind_None_right: "Option.bind x (\<lambda>_. None) = None"
  by (cases x) simp_all

lemma those_map_Some: "those (map (Some \<circ> f) xs) = Some (map f xs)"
  by (induction xs) simp_all

lemma valor_bucle_total:
  assumes "\<forall>i x. num_mult ar (num_entero ar i) x = num_mult ar x (num_entero ar i)"
  shows "snd (valor_bucle ar ps a filas) =
           Option.bind (those (map (valuacion_spec ar) ps)) (suma_spec ar a)"
proof (induction ps arbitrary: a filas)
  case Nil
  show ?case by simp
next
  case (Cons p ps)
  note vs = valuacion_spec_costo_unit [OF assms, of p]
  show ?case
  proof (cases "costo_unit ar p")
    case None
    then show ?thesis by (simp add: vs)
  next
    case cu: (Some cu)
    show ?thesis
    proof (cases "num_mult ar (num_entero ar (stock_actual p)) cu")
      case None
      with cu show ?thesis by (simp add: vs)
    next
      case v: (Some v)
      show ?thesis
      proof (cases "num_suma ar a v")
        case None
        with cu v show ?thesis
          by (simp add: vs bind_map_option comp_def bind_None_right)
      next
        case (Some a')
        with cu v Cons.IH [of a'] show ?thesis
          by (simp add: vs bind_map_option comp_def)
      qed
    qed
  qed
qed

lemma valor_bucle_filas:
  assumes "\<forall>i x. num_mult ar (num_entero ar i) x = num_mult ar x (num_entero ar i)"
    and "valor_bucle ar ps a filas = (filas', Some t)"
  shows "map fila_nombre filas' = map fila_nombre filas @ map nombre ps \<and>
         map (Some \<circ> fila_valor) filas' =
           map (Some \<circ> fila_valor) filas @ map (valuacion_spec ar) ps"
  using assms(2)
proof (induction ps arbitrary: a filas)
  case Nil
  then show ?case by simp
next
  case (Cons p ps)
  note vs = valuacion_spec_costo_unit [OF assms(1), of p]
  from Cons.prems obtain cu v a' where
    cu: "costo_unit ar p = Some cu"
    and v: "num_mult ar (num_entero ar (stock_actual p)) cu = Some v"
    and a': "num_suma ar a v = Some a'"
    by (auto split: option.splits)
  with Cons.prems Cons.IH [of a' "filas @ [\<lparr>fila_nombre = nombre p,
      fila_tipo = (case clase p of ProductoNacional _ \<Rightarrow> ''NACIONAL''
                   | ProductoImportado _ \<Rightarrow> ''IMPORTADO''),
      fila_stock = stock_actual p, fila_costo_unit = cu, fila_valor = v\<rparr>]"]
  show ?case by (simp add: vs)
qed

text \<open>
  C8, for Python's arithmetic taken as it is, with its rounding, in the order in which the
  code applies it (the one fact used is that the product of an \<^verbatim>\<open>int\<close> and a number does
  not depend on the order of the two): \<^verbatim>\<open>calcular_valor_inventario\<close> ends with a total
  exactly when no row expression and no addition of the sum raises, and the total is then
  the sum of the row expressions, added from 0 in the order of the catalog; when it ends
  with a total it has printed one row per product, in the order of the catalog, the value
  of the row of an imported product is \<^verbatim>\<open>unit_cost * (1 + tax_rate) * current_stock\<close>, that
  of a domestic product is \<^verbatim>\<open>unit_cost * current_stock\<close>, and the total is the sum of the
  values of the rows.
\<close>

theorem calcular_valor_inventario_valuacion:
  assumes "\<forall>i x. num_mult ar (num_entero ar i) x = num_mult ar x (num_entero ar i)"
  shows "snd (calcular_valor_inventario ar s) =
           Option.bind (those (map (valuacion_spec ar \<circ> snd) (productos s)))
             (suma_spec ar (num_entero ar 0)) \<and>
         (\<forall>filas total. calcular_valor_inventario ar s = (filas, Some total) \<longrightarrow>
            map fila_nombre filas = map (nombre \<circ> snd) (productos s) \<and>
            map (Some \<circ> fila_valor) filas = map (valuacion_spec ar \<circ> snd) (productos s) \<and>
            suma_spec ar (num_entero ar 0) (map fila_valor filas) = Some total)"
proof (intro conjI allI impI)
  show t: "snd (calcular_valor_inventario ar s) =
           Option.bind (those (map (valuacion_spec ar \<circ> snd) (productos s)))
             (suma_spec ar (num_entero ar 0))"
    using valor_bucle_total [OF assms, of "map snd (productos s)" "num_entero ar 0" "[]"]
    by (simp add: calcular_valor_inventario_def)
  fix filas total
  assume r: "calcular_valor_inventario ar s = (filas, Some total)"
  then have f: "map fila_nombre filas = map (nombre \<circ> snd) (productos s) \<and>
      map (Some \<circ> fila_valor) filas = map (valuacion_spec ar \<circ> snd) (productos s)"
    using valor_bucle_filas [OF assms, of "map snd (productos s)" "num_entero ar 0" "[]" filas total]
    by (simp add: calcular_valor_inventario_def)
  then show "map fila_nombre filas = map (nombre \<circ> snd) (productos s)"
    and "map (Some \<circ> fila_valor) filas = map (valuacion_spec ar \<circ> snd) (productos s)"
    by simp_all
  from f have e: "map (valuacion_spec ar \<circ> snd) (productos s) = map (Some \<circ> fila_valor) filas"
    by simp
  from r have "snd (calcular_valor_inventario ar s) = Some total"
    by simp
  with t have "Option.bind (those (map (valuacion_spec ar \<circ> snd) (productos s)))
                 (suma_spec ar (num_entero ar 0)) = Some total"
    by simp
  then show "suma_spec ar (num_entero ar 0) (map fila_valor filas) = Some total"
    unfolding e by (simp add: those_map_Some)
qed

theorem calcular_valor_inventario_valuacion_witness:
  "(\<forall>i x. num_mult centesimos (num_entero centesimos i) x =
           num_mult centesimos x (num_entero centesimos i)) \<and>
   map (valuacion_spec centesimos \<circ> snd) (productos sistema_main) = [Some 450, Some (2832 / 10)] \<and>
   map fila_valor (fst (calcular_valor_inventario centesimos sistema_main)) = [450, 2832 / 10] \<and>
   snd (calcular_valor_inventario centesimos sistema_main) = Some (7332 / 10) \<and>
   map (valuacion_spec centesimos \<circ> snd) (productos sistema_broca) = [Some (189 / 100)] \<and>
   snd (calcular_valor_inventario centesimos sistema_broca) = Some (189 / 100) \<and>
   (55 / 100) * (1 + 15 / 100) * 3 = (18975 / 10000 :: real)"
proof -
  have h: "\<forall>i x. num_mult centesimos (num_entero centesimos i) x =
                 num_mult centesimos x (num_entero centesimos i)"
    by (simp add: centesimos_def mult.commute)
  have v: "map (valuacion_spec centesimos \<circ> snd) (productos sistema_main) =
             [Some 450, Some (2832 / 10)]"
    by (simp add: sistema_main_eval valuacion_spec_def centesimos_def)
  have f: "map fila_valor (fst (calcular_valor_inventario centesimos sistema_main)) =
             [450, 2832 / 10]"
    by (simp add: sistema_main_eval calcular_valor_inventario_def costo_unit_def
          costo_con_impuesto_def centesimos_def)
  have b: "map (valuacion_spec centesimos \<circ> snd) (productos sistema_broca) = [Some (189 / 100)]"
    by (simp add: sistema_broca_def ejecutar_def sistema_vacio_def operaciones_defs
          valuacion_spec_def centesimos_def)
  from calcular_valor_inventario_valuacion [OF h, of sistema_main]
    calcular_valor_inventario_valuacion [OF h, of sistema_broca] h v f b
  show ?thesis by (simp add: centesimos_def)
qed

subsection \<open>obtener_historial_movimientos\<close>

text \<open>
  C9, as the specification states it: the history is made of exactly the movements that
  pass every filter that is supplied. A filter is applied when its argument is truthy,
  and the empty string is not: asked for the movements of the product whose code is the
  empty string, the method returns the whole log of the seed ledger, whose two movements
  are of \<^verbatim>\<open>NA001\<close> and \<^verbatim>\<open>IM001\<close>, where the filter by code passes none of them.
\<close>

theorem historial_codigo_vacio_contraejemplo:
  "map producto (obtener_historial_movimientos sistema_main (Some '''') None None) =
     [''NA001'', ''IM001''] \<and>
   historial_spec (movimientos sistema_main) (Some '''') None None = []"
  by (simp add: sistema_main_eval obtener_historial_movimientos_def historial_spec_def)

text \<open>
  C9, amended: \<^verbatim>\<open>obtener_historial_movimientos\<close> returns exactly the movements of the
  global log that pass every filter that is supplied, in the order of the log, the time
  range being inclusive at both bounds; a filter that is omitted passes every movement,
  and so does a product code that is the empty string.
\<close>

theorem historial_filtros:
  "obtener_historial_movimientos s code from_time to_time =
     historial_spec (movimientos s) (if code = Some '''' then None else code) from_time to_time"
  by (cases code; cases from_time; cases to_time)
     (auto simp add: obtener_historial_movimientos_def historial_spec_def Let_def
        intro: filter_cong)

theorem historial_filtros_witness:
  "map fecha (obtener_historial_movimientos sistema_main None (Some 2) (Some 2)) = [2] \<and>
   map fecha (obtener_historial_movimientos sistema_main (Some ''NA001'') None (Some 1)) = [1] \<and>
   obtener_historial_movimientos sistema_main (Some ''NA001'') (Some 2) None = [] \<and>
   obtener_historial_movimientos sistema_main None None None = movimientos sistema_main"
  using historial_filtros [of sistema_main None "Some 2" "Some 2"]
    historial_filtros [of sistema_main "Some ''NA001''" None "Some 1"]
    historial_filtros [of sistema_main "Some ''NA001''" "Some 2" None]
    historial_filtros [of sistema_main None None None]
  by (simp add: sistema_main_eval historial_spec_def)

subsection \<open>buscar_producto\<close>

lemma buscar_bucle_filter:
  "buscar_bucle lower criterio valor ps resultados =
     resultados @ filter (coincide lower criterio valor) ps"
  by (induction ps arbitrary: resultados) simp_all

text \<open>
  C10: with a criterion that is none of \<^verbatim>\<open>"codigo"\<close>, \<^verbatim>\<open>"nombre"\<close> and \<^verbatim>\<open>"categoria"\<close>,
  \<^verbatim>\<open>buscar_producto\<close> returns the empty list, whatever the catalog and the value are (and
  whatever \<^verbatim>\<open>str.lower()\<close> does, which is not called); it does not fail.
\<close>

theorem buscar_producto_criterio_desconocido:
  assumes "criterio \<notin> {''codigo'', ''nombre'', ''categoria''}"
  shows "buscar_producto lower s criterio valor = []"
  using assms by (simp add: buscar_producto_def buscar_bucle_filter coincide_def)

theorem buscar_producto_criterio_desconocido_witness:
  "''proveedor'' \<notin> {''codigo'', ''nombre'', ''categoria''} \<and>
   buscar_producto lower_ascii sistema_main ''proveedor'' ''Aceros'' = [] \<and>
   map codigo (buscar_producto lower_ascii sistema_main ''nombre'' ''ACERO'') = [''NA001'']"
proof -
  have h: "''proveedor'' \<notin> {''codigo'', ''nombre'', ''categoria''}" by simp
  have e: "map codigo (buscar_producto lower_ascii sistema_main ''nombre'' ''ACERO'') = [''NA001'']"
    by (simp add: sistema_main_eval buscar_producto_def coincide_def lower_ascii_def sublist_code)
  from buscar_producto_criterio_desconocido [OF h, of lower_ascii sistema_main "''Aceros''"] h e
  show ?thesis by simp
qed

end
